theory Spec2Isabelle
  imports Main "HOL-Library.Sublist"
begin

section \<open>Data model\<close>

text \<open>
  \<^verbatim>\<open>RelayConfig\<close> (main.go, lines 19-31). Go's \<^verbatim>\<open>int\<close> fields are modelled as \<open>int\<close>:
  the program only compares and prints them, it never does arithmetic on them, so no
  wrap-around can be observed. \<^verbatim>\<open>time.Duration\<close> is an integer number of nanoseconds.
  A Go string is a sequence of bytes, and \<^verbatim>\<open>len\<close> counts bytes: \<open>string\<close> with \<open>length\<close>.
\<close>

record RelayConfig =
  Port :: int
  DBPath :: string
  HTTPTimeout :: int
  Name :: string
  Description :: string
  PubKey :: string
  AllowedKinds :: "int list"
  WhitelistPubkeys :: "string list"
  MaxContentLength :: int
  MaxEventTags :: int
  Debug :: bool

text \<open>
  \<^verbatim>\<open>nostr.Event\<close> of the go-nostr library, the type of the event that the relay engine
  hands to the admission policy. The policy reads \<^verbatim>\<open>Content\<close>, \<^verbatim>\<open>Tags\<close>, \<^verbatim>\<open>Kind\<close> and
  \<^verbatim>\<open>PubKey\<close>; a tag is a slice of strings. The field \<^verbatim>\<open>PubKey\<close> of the event is
  \<open>EvPubKey\<close> here, since the configuration has a field of the same name.
\<close>

record event =
  ID :: string
  EvPubKey :: string
  CreatedAt :: int
  Kind :: int
  Tags :: "string list list"
  Content :: string
  Sig :: string

section \<open>Formatting (\<^verbatim>\<open>fmt.Sprintf\<close>)\<close>

text \<open>The verb \<^verbatim>\<open>%d\<close> on an \<^verbatim>\<open>int\<close>: decimal digits, with a minus sign when negative.\<close>

fun dec_nat :: "nat \<Rightarrow> string" where
  "dec_nat n =
     (if n < 10 then [''0123456789'' ! n]
      else dec_nat (n div 10) @ [''0123456789'' ! (n mod 10)])"

declare dec_nat.simps [simp del]

definition fmt_d :: "int \<Rightarrow> string" where
  "fmt_d i = (if i < 0 then CHR ''-'' # dec_nat (nat (- i)) else dec_nat (nat i))"

text \<open>The verb \<^verbatim>\<open>%v\<close> on an \<^verbatim>\<open>[]int\<close>: the elements in decimal, separated by one space,
  in square brackets; on a \<^verbatim>\<open>bool\<close>: \<^verbatim>\<open>true\<close> or \<^verbatim>\<open>false\<close>.\<close>

fun join_space :: "string list \<Rightarrow> string" where
  "join_space [] = []"
| "join_space [s] = s"
| "join_space (s # t # ss) = s @ '' '' @ join_space (t # ss)"

definition fmt_v_ints :: "int list \<Rightarrow> string" where
  "fmt_v_ints ks = ''['' @ join_space (map fmt_d ks) @ '']''"

definition fmt_v_bool :: "bool \<Rightarrow> string" where
  "fmt_v_bool b = (if b then ''true'' else ''false'')"

section \<open>Admission policy\<close>

text \<open>\<^verbatim>\<open>contains\<close> (main.go, lines 199-206): a linear scan that returns at the first match.\<close>

fun contains :: "'a list \<Rightarrow> 'a \<Rightarrow> bool" where
  "contains [] item = False"
| "contains (s # slice) item = (if s = item then True else contains slice item)"

text \<open>
  The closure appended to \<^verbatim>\<open>relay.RejectEvent\<close> (main.go, lines 82-102). It captures
  \<^verbatim>\<open>cfg\<close>, which is the first argument here; the context argument is not used. The
  result is the pair \<^verbatim>\<open>(reject, msg)\<close>.
\<close>

definition RejectEvent :: "RelayConfig \<Rightarrow> event \<Rightarrow> bool \<times> string" where
  "RejectEvent cfg ev =
     (if MaxContentLength cfg > 0 \<and> int (length (Content ev)) > MaxContentLength cfg then
        (True, ''blocked: content length exceeds maximum of '' @ fmt_d (MaxContentLength cfg))
      else if MaxEventTags cfg > 0 \<and> int (length (Tags ev)) > MaxEventTags cfg then
        (True, ''blocked: number of tags exceeds maximum of '' @ fmt_d (MaxEventTags cfg))
      else if length (AllowedKinds cfg) > 0 \<and> \<not> contains (AllowedKinds cfg) (Kind ev) then
        (True, ''blocked: event kind '' @ fmt_d (Kind ev)
                 @ '' not allowed, allowed kinds: '' @ fmt_v_ints (AllowedKinds cfg))
      else if length (WhitelistPubkeys cfg) > 0
              \<and> \<not> contains (WhitelistPubkeys cfg) (EvPubKey ev) then
        (True, ''blocked: pubkey not in whitelist'')
      else (False, ''''))"

section \<open>Request dispatcher\<close>

text \<open>
  The part of \<^verbatim>\<open>http.Request\<close> that \<^verbatim>\<open>handleRoot\<close> reads: the header, a map from
  canonical header names to the list of their values, and the host.
  \<^verbatim>\<open>Header.Get\<close> returns the first value of a name, or the empty string when the name
  is absent or has no value. The two names the handler asks for, \<^verbatim>\<open>Upgrade\<close> and
  \<^verbatim>\<open>Accept\<close>, are already in canonical form.
\<close>

record request =
  Header :: "string \<rightharpoonup> string list"
  Host :: string

definition Header_Get :: "(string \<rightharpoonup> string list) \<Rightarrow> string \<Rightarrow> string" where
  "Header_Get h key = (case h key of None \<Rightarrow> '''' | Some [] \<Rightarrow> '''' | Some (v # _) \<Rightarrow> v)"

text \<open>
  \<^verbatim>\<open>strings.ToLower\<close>. On a string of ASCII bytes only (every byte below
  \<^verbatim>\<open>utf8.RuneSelf\<close>, 128) it adds 32 to each byte in \<^verbatim>\<open>'A'..'Z'\<close> and keeps the others. On
  any other string it maps \<^verbatim>\<open>unicode.ToLower\<close> over the runes; that mapping depends on
  the Unicode tables, and is the parameter \<open>unicode_lower\<close>.
\<close>

definition is_ascii :: "char \<Rightarrow> bool" where
  "is_ascii c = ((of_char c :: nat) < 128)"

definition ascii_lower :: "char \<Rightarrow> char" where
  "ascii_lower c =
     (if (65::nat) \<le> of_char c \<and> of_char c \<le> (90::nat)
      then char_of (of_char c + (32::nat)) else c)"

definition ToLower :: "(string \<Rightarrow> string) \<Rightarrow> string \<Rightarrow> string" where
  "ToLower unicode_lower s =
     (if list_all is_ascii s then map ascii_lower s else unicode_lower s)"

text \<open>
  The value handed to the JSON encoder: a \<^verbatim>\<open>map[string]interface{}\<close> whose values are
  strings, ints, bools, an \<^verbatim>\<open>[]int\<close> or a nested map. The keys of a map literal are
  distinct; an object is the list of its entries, read with \<open>map_of\<close>.
\<close>

datatype jvalue =
    JStr string
  | JInt int
  | JBool bool
  | JInts "int list"
  | JObj "(string \<times> jvalue) list"

text \<open>
  What the handler does with a request, one constructor for each branch:
  \<^item> \<open>StreamingHandoff\<close>: \<^verbatim>\<open>relay.ServeHTTP(w, r)\<close> and return, nothing written by the
    handler itself;
  \<^item> \<open>CapabilityDocument\<close>: the \<^verbatim>\<open>Content-Type\<close> it sets and the value it encodes;
  \<^item> \<open>StatusPage\<close>: the \<^verbatim>\<open>Content-Type\<close> it sets and the ten formatted arguments, in
    order, that \<^verbatim>\<open>fmt.Fprintf\<close> puts into the fixed HTML template.
\<close>

datatype response =
    StreamingHandoff
  | CapabilityDocument string jvalue
  | StatusPage string "string list"

text \<open>\<^verbatim>\<open>handleRoot\<close> (main.go, lines 137-197).\<close>

definition handleRoot :: "(string \<Rightarrow> string) \<Rightarrow> RelayConfig \<Rightarrow> request \<Rightarrow> response" where
  "handleRoot unicode_lower cfg r =
     (if ToLower unicode_lower (Header_Get (Header r) ''Upgrade'') = ''websocket'' then
        StreamingHandoff
      else if Header_Get (Header r) ''Accept'' = ''application/json'' then
        CapabilityDocument ''application/json''
          (JObj [
             (''name'', JStr (Name cfg)),
             (''description'', JStr (Description cfg)),
             (''pubkey'', JStr (PubKey cfg)),
             (''config'', JObj [
                (''allowed_kinds'', JInts (AllowedKinds cfg)),
                (''whitelist_enabled'', JBool (length (WhitelistPubkeys cfg) > 0)),
                (''max_content_length'', JInt (MaxContentLength cfg)),
                (''max_event_tags'', JInt (MaxEventTags cfg)),
                (''debug_enabled'', JBool (Debug cfg))])])
      else
        StatusPage ''text/html''
          [Name cfg, Name cfg, Description cfg,
           fmt_v_ints (AllowedKinds cfg), fmt_v_bool (length (WhitelistPubkeys cfg) > 0),
           fmt_d (MaxContentLength cfg), fmt_d (MaxEventTags cfg), fmt_v_bool (Debug cfg),
           Host r, fmt_d (Port cfg)])"




section \<open>The rules of the specification\<close>

text \<open>
  The four rejection rules as the specification words them (section 4.1, rules 1 to 4),
  each on its own and without the ordering: the limit is positive and exceeded, the set
  is non-empty and the value is not a member. They state the claims about the policy;
  \<open>RejectEvent\<close> above does not use them.
\<close>

definition violates_content_length :: "RelayConfig \<Rightarrow> event \<Rightarrow> bool" where
  "violates_content_length cfg ev =
     (MaxContentLength cfg > 0 \<and> int (length (Content ev)) > MaxContentLength cfg)"

definition violates_tag_count :: "RelayConfig \<Rightarrow> event \<Rightarrow> bool" where
  "violates_tag_count cfg ev =
     (MaxEventTags cfg > 0 \<and> int (length (Tags ev)) > MaxEventTags cfg)"

definition violates_allowed_kinds :: "RelayConfig \<Rightarrow> event \<Rightarrow> bool" where
  "violates_allowed_kinds cfg ev =
     (set (AllowedKinds cfg) \<noteq> {} \<and> Kind ev \<notin> set (AllowedKinds cfg))"

definition violates_whitelist :: "RelayConfig \<Rightarrow> event \<Rightarrow> bool" where
  "violates_whitelist cfg ev =
     (set (WhitelistPubkeys cfg) \<noteq> {} \<and> EvPubKey ev \<notin> set (WhitelistPubkeys cfg))"

section \<open>Sample inputs\<close>

text \<open>
  A configuration with every limit active, and an event that it admits. The theorems
  below are instantiated at these and at variations of them.
\<close>

definition sample_cfg :: RelayConfig where
  "sample_cfg =
     \<lparr>Port = 3334, DBPath = ''./khatru-sqlite.db'', HTTPTimeout = 30000000000,
      Name = ''Debug Khatru Relay'', Description = ''A configurable Nostr relay'',
      PubKey = '''', AllowedKinds = [1, 30023], WhitelistPubkeys = [''abc''],
      MaxContentLength = 5, MaxEventTags = 1, Debug = False\<rparr>"

definition sample_event :: event where
  "sample_event =
     \<lparr>ID = ''00'', EvPubKey = ''abc'', CreatedAt = 1700000000, Kind = 1, Tags = [],
      Content = ''hi'', Sig = ''00''\<rparr>"

text \<open>Two public keys in the protocol's form, 64 hexadecimal digits.\<close>

definition sample_key_a :: string where
  "sample_key_a = ''3bf0c63fcb93463407af97a5e5ee64fa883d107ef9e558472c4eb9aaaefa459d''"

definition sample_key_b :: string where
  "sample_key_b = ''82341f882b6eabcd2ba7f1ef90aad961cf074af15b9ef44a09f9d2a8fbfbe6a2''"

text \<open>
  Requests: one that asks for a websocket upgrade and for JSON at once, one that asks for
  JSON only, one without either header, and two whose \<^verbatim>\<open>Upgrade\<close> header is present but
  is not the word \<^verbatim>\<open>websocket\<close> in any case.
\<close>

definition upgrade_request :: request where
  "upgrade_request =
     \<lparr>Header = [''Upgrade'' \<mapsto> [''WebSocket''], ''Accept'' \<mapsto> [''application/json'']],
      Host = ''relay.example''\<rparr>"

definition json_request :: request where
  "json_request =
     \<lparr>Header = [''Accept'' \<mapsto> [''application/json'']], Host = ''relay.example''\<rparr>"

definition plain_request :: request where
  "plain_request = \<lparr>Header = Map.empty, Host = ''relay.example''\<rparr>"

definition odd_upgrade_request :: request where
  "odd_upgrade_request =
     \<lparr>Header = [''Upgrade'' \<mapsto> [''web socket'']], Host = ''relay.example''\<rparr>"

definition odd_upgrade_json_request :: request where
  "odd_upgrade_json_request =
     \<lparr>Header = [''Upgrade'' \<mapsto> [''web socket''], ''Accept'' \<mapsto> [''application/json'']],
      Host = ''relay.example''\<rparr>"

section \<open>Properties of the admission policy\<close>

lemma contains_iff: "contains slice item \<longleftrightarrow> item \<in> set slice"
  by (induction slice) auto

text \<open>The if-chain of \<open>RejectEvent\<close>, with each guard named by the rule it tests.\<close>

lemma RejectEvent_by_rules:
  "RejectEvent cfg ev =
     (if violates_content_length cfg ev then
        (True, ''blocked: content length exceeds maximum of '' @ fmt_d (MaxContentLength cfg))
      else if violates_tag_count cfg ev then
        (True, ''blocked: number of tags exceeds maximum of '' @ fmt_d (MaxEventTags cfg))
      else if violates_allowed_kinds cfg ev then
        (True, ''blocked: event kind '' @ fmt_d (Kind ev)
                 @ '' not allowed, allowed kinds: '' @ fmt_v_ints (AllowedKinds cfg))
      else if violates_whitelist cfg ev then (True, ''blocked: pubkey not in whitelist'')
      else (False, ''''))"
  by (simp add: RejectEvent_def violates_content_length_def violates_tag_count_def
        violates_allowed_kinds_def violates_whitelist_def contains_iff)

text \<open>
  The four reason texts differ from the tenth character on, so the text of a rejection
  tells which rule produced it.
\<close>

lemma content_length_reason_iff:
  "prefix ''blocked: content length'' (snd (RejectEvent cfg ev))
     \<longleftrightarrow> violates_content_length cfg ev"
  by (simp add: RejectEvent_by_rules)

lemma tag_count_reason_iff:
  "prefix ''blocked: number of tags'' (snd (RejectEvent cfg ev))
     \<longleftrightarrow> \<not> violates_content_length cfg ev \<and> violates_tag_count cfg ev"
  by (simp add: RejectEvent_by_rules)

lemma sample_values:
  "fmt_d 5 = ''5''" "fmt_d 1 = ''1''" "fmt_d 9999 = ''9999''"
  "fmt_v_ints [1, 30023] = ''[1 30023]''"
  by (simp_all add: fmt_d_def fmt_v_ints_def dec_nat.simps)

text \<open>
  The scenarios of the specification (section 8): with a content limit of 100 and the
  allowed kinds 1 and 30023, an event of kind 1 with content \<^verbatim>\<open>hi\<close> and no tags is
  admitted, and an event of kind 9999 is rejected with a reason that names 9999 and lists
  \<^verbatim>\<open>[1 30023]\<close>.
\<close>

lemma scenario_allowed_kinds:
  "RejectEvent (sample_cfg\<lparr>MaxContentLength := 100, WhitelistPubkeys := []\<rparr>) sample_event
     = (False, '''')"
  "RejectEvent (sample_cfg\<lparr>MaxContentLength := 100, WhitelistPubkeys := []\<rparr>)
       (sample_event\<lparr>Kind := 9999\<rparr>)
     = (True, ''blocked: event kind 9999 not allowed, allowed kinds: [1 30023]'')"
  by (simp_all add: RejectEvent_def sample_cfg_def sample_event_def sample_values)

subsection \<open>Order of the rules\<close>

text \<open>
  Claim C1. The policy applies its rules in the order content length, tag count, allowed
  kinds, whitelist, and the first rule that an event violates gives the reason: when the
  content-length rule is violated the reason is the content-length text with the
  configured maximum; when it is not and the tag-count rule is violated, the tag-count
  text; when neither is and the kind is not allowed, the text naming the kind and the
  allowed kinds; when none of the three is and the author is not whitelisted, the
  whitelist text. No case asks anything of the rules after the one that decides.
\<close>

theorem first_failing_rule_gives_reason:
  "(violates_content_length cfg ev \<longrightarrow>
      RejectEvent cfg ev =
        (True, ''blocked: content length exceeds maximum of '' @ fmt_d (MaxContentLength cfg)))
   \<and> (\<not> violates_content_length cfg ev \<and> violates_tag_count cfg ev \<longrightarrow>
      RejectEvent cfg ev =
        (True, ''blocked: number of tags exceeds maximum of '' @ fmt_d (MaxEventTags cfg)))
   \<and> (\<not> violates_content_length cfg ev \<and> \<not> violates_tag_count cfg ev
        \<and> violates_allowed_kinds cfg ev \<longrightarrow>
      RejectEvent cfg ev =
        (True, ''blocked: event kind '' @ fmt_d (Kind ev)
                 @ '' not allowed, allowed kinds: '' @ fmt_v_ints (AllowedKinds cfg)))
   \<and> (\<not> violates_content_length cfg ev \<and> \<not> violates_tag_count cfg ev
        \<and> \<not> violates_allowed_kinds cfg ev \<and> violates_whitelist cfg ev \<longrightarrow>
      RejectEvent cfg ev = (True, ''blocked: pubkey not in whitelist''))"
proof (intro conjI impI)
  assume "violates_content_length cfg ev"
  then show "RejectEvent cfg ev =
      (True, ''blocked: content length exceeds maximum of '' @ fmt_d (MaxContentLength cfg))"
    by (simp add: RejectEvent_by_rules)
next
  assume "\<not> violates_content_length cfg ev \<and> violates_tag_count cfg ev"
  then show "RejectEvent cfg ev =
      (True, ''blocked: number of tags exceeds maximum of '' @ fmt_d (MaxEventTags cfg))"
    by (simp add: RejectEvent_by_rules)
next
  assume "\<not> violates_content_length cfg ev \<and> \<not> violates_tag_count cfg ev
        \<and> violates_allowed_kinds cfg ev"
  then show "RejectEvent cfg ev =
      (True, ''blocked: event kind '' @ fmt_d (Kind ev)
               @ '' not allowed, allowed kinds: '' @ fmt_v_ints (AllowedKinds cfg))"
    by (simp add: RejectEvent_by_rules)
next
  assume "\<not> violates_content_length cfg ev \<and> \<not> violates_tag_count cfg ev
        \<and> \<not> violates_allowed_kinds cfg ev \<and> violates_whitelist cfg ev"
  then show "RejectEvent cfg ev = (True, ''blocked: pubkey not in whitelist'')"
    by (simp add: RejectEvent_by_rules)
qed

text \<open>
  Four events for the sample configuration. The first violates every rule, the second
  every rule but the first, and so on; each gets the reason of its first violation.
\<close>

theorem first_failing_rule_gives_reason_witness:
  "violates_content_length sample_cfg
      (sample_event\<lparr>EvPubKey := ''xyz'', Kind := 9999, Tags := [[''e''], [''p'']],
                     Content := ''far too long''\<rparr>)
   \<and> RejectEvent sample_cfg
      (sample_event\<lparr>EvPubKey := ''xyz'', Kind := 9999, Tags := [[''e''], [''p'']],
                     Content := ''far too long''\<rparr>)
     = (True, ''blocked: content length exceeds maximum of 5'')
   \<and> violates_tag_count sample_cfg
      (sample_event\<lparr>EvPubKey := ''xyz'', Kind := 9999, Tags := [[''e''], [''p'']]\<rparr>)
   \<and> RejectEvent sample_cfg
      (sample_event\<lparr>EvPubKey := ''xyz'', Kind := 9999, Tags := [[''e''], [''p'']]\<rparr>)
     = (True, ''blocked: number of tags exceeds maximum of 1'')
   \<and> violates_allowed_kinds sample_cfg (sample_event\<lparr>EvPubKey := ''xyz'', Kind := 9999\<rparr>)
   \<and> RejectEvent sample_cfg (sample_event\<lparr>EvPubKey := ''xyz'', Kind := 9999\<rparr>)
     = (True, ''blocked: event kind 9999 not allowed, allowed kinds: [1 30023]'')
   \<and> violates_whitelist sample_cfg (sample_event\<lparr>EvPubKey := ''xyz''\<rparr>)
   \<and> RejectEvent sample_cfg (sample_event\<lparr>EvPubKey := ''xyz''\<rparr>)
     = (True, ''blocked: pubkey not in whitelist'')"
proof -
  let ?e1 = "sample_event\<lparr>EvPubKey := ''xyz'', Kind := 9999, Tags := [[''e''], [''p'']],
                Content := ''far too long''\<rparr>"
  let ?e2 = "sample_event\<lparr>EvPubKey := ''xyz'', Kind := 9999, Tags := [[''e''], [''p'']]\<rparr>"
  let ?e3 = "sample_event\<lparr>EvPubKey := ''xyz'', Kind := 9999\<rparr>"
  let ?e4 = "sample_event\<lparr>EvPubKey := ''xyz''\<rparr>"
  have v1: "violates_content_length sample_cfg ?e1"
    by (simp add: violates_content_length_def sample_cfg_def sample_event_def)
  have v2: "\<not> violates_content_length sample_cfg ?e2 \<and> violates_tag_count sample_cfg ?e2"
    by (simp add: violates_content_length_def violates_tag_count_def sample_cfg_def
          sample_event_def)
  have v3: "\<not> violates_content_length sample_cfg ?e3 \<and> \<not> violates_tag_count sample_cfg ?e3
      \<and> violates_allowed_kinds sample_cfg ?e3"
    by (simp add: violates_content_length_def violates_tag_count_def
          violates_allowed_kinds_def sample_cfg_def sample_event_def)
  have v4: "\<not> violates_content_length sample_cfg ?e4 \<and> \<not> violates_tag_count sample_cfg ?e4
      \<and> \<not> violates_allowed_kinds sample_cfg ?e4 \<and> violates_whitelist sample_cfg ?e4"
    by (simp add: violates_content_length_def violates_tag_count_def
          violates_allowed_kinds_def violates_whitelist_def sample_cfg_def sample_event_def)
  have r1: "RejectEvent sample_cfg ?e1 =
      (True, ''blocked: content length exceeds maximum of ''
               @ fmt_d (MaxContentLength sample_cfg))"
    using first_failing_rule_gives_reason [of sample_cfg ?e1] v1 by blast
  have r2: "RejectEvent sample_cfg ?e2 =
      (True, ''blocked: number of tags exceeds maximum of '' @ fmt_d (MaxEventTags sample_cfg))"
    using first_failing_rule_gives_reason [of sample_cfg ?e2] v2 by blast
  have r3: "RejectEvent sample_cfg ?e3 =
      (True, ''blocked: event kind '' @ fmt_d (Kind ?e3)
               @ '' not allowed, allowed kinds: '' @ fmt_v_ints (AllowedKinds sample_cfg))"
    using first_failing_rule_gives_reason [of sample_cfg ?e3] v3 by blast
  have r4: "RejectEvent sample_cfg ?e4 = (True, ''blocked: pubkey not in whitelist'')"
    using first_failing_rule_gives_reason [of sample_cfg ?e4] v4 by blast
  have "MaxContentLength sample_cfg = 5" "MaxEventTags sample_cfg = 1"
    "AllowedKinds sample_cfg = [1, 30023]" "Kind ?e3 = 9999"
    by (simp_all add: sample_cfg_def)
  with r1 r2 r3 r4 v1 v2 v3 v4 show ?thesis
    by (simp add: sample_values)
qed

subsection \<open>Events within every limit\<close>

text \<open>
  Claim C2. An event whose content is no longer than the content limit (when that limit
  is positive), that has no more tags than the tag limit (when that limit is positive),
  whose kind is among the allowed kinds (when there are any) and whose author is in the
  whitelist (when there is one) is accepted: the policy returns \<^verbatim>\<open>(false, "")\<close>.
\<close>

theorem within_limits_accepted:
  assumes "MaxContentLength cfg > 0 \<longrightarrow> int (length (Content ev)) \<le> MaxContentLength cfg"
    and "MaxEventTags cfg > 0 \<longrightarrow> int (length (Tags ev)) \<le> MaxEventTags cfg"
    and "set (AllowedKinds cfg) \<noteq> {} \<longrightarrow> Kind ev \<in> set (AllowedKinds cfg)"
    and "set (WhitelistPubkeys cfg) \<noteq> {} \<longrightarrow> EvPubKey ev \<in> set (WhitelistPubkeys cfg)"
  shows "RejectEvent cfg ev = (False, '''')"
proof -
  from assms(1) have "\<not> violates_content_length cfg ev"
    by (auto simp: violates_content_length_def)
  moreover from assms(2) have "\<not> violates_tag_count cfg ev"
    by (auto simp: violates_tag_count_def)
  moreover from assms(3) have "\<not> violates_allowed_kinds cfg ev"
    by (auto simp: violates_allowed_kinds_def)
  moreover from assms(4) have "\<not> violates_whitelist cfg ev"
    by (auto simp: violates_whitelist_def)
  ultimately show ?thesis
    by (simp add: RejectEvent_by_rules)
qed

text \<open>The sample event under the sample configuration: every limit is active and met.\<close>

theorem within_limits_accepted_witness:
  "0 < MaxContentLength sample_cfg
   \<and> int (length (Content sample_event)) \<le> MaxContentLength sample_cfg
   \<and> 0 < MaxEventTags sample_cfg
   \<and> int (length (Tags sample_event)) \<le> MaxEventTags sample_cfg
   \<and> set (AllowedKinds sample_cfg) \<noteq> {} \<and> Kind sample_event \<in> set (AllowedKinds sample_cfg)
   \<and> set (WhitelistPubkeys sample_cfg) \<noteq> {}
   \<and> EvPubKey sample_event \<in> set (WhitelistPubkeys sample_cfg)
   \<and> RejectEvent sample_cfg sample_event = (False, '''')"
proof -
  have h: "0 < MaxContentLength sample_cfg"
    "int (length (Content sample_event)) \<le> MaxContentLength sample_cfg"
    "0 < MaxEventTags sample_cfg"
    "int (length (Tags sample_event)) \<le> MaxEventTags sample_cfg"
    "set (AllowedKinds sample_cfg) \<noteq> {}" "Kind sample_event \<in> set (AllowedKinds sample_cfg)"
    "set (WhitelistPubkeys sample_cfg) \<noteq> {}"
    "EvPubKey sample_event \<in> set (WhitelistPubkeys sample_cfg)"
    by (simp_all add: sample_cfg_def sample_event_def)
  have "RejectEvent sample_cfg sample_event = (False, '''')"
    by (rule within_limits_accepted) (simp_all add: h)
  with h show ?thesis by simp
qed

subsection \<open>The whitelist reason\<close>

text \<open>
  Claim C3, as the specification states it: the reason of a whitelist rejection is one
  fixed constant and never contains the event's pubkey or a member of the whitelist.
  The first half holds. The second fails when such a string is a piece of the constant
  itself. The whitelist is read from the environment as it stands: with the whitelist
  \<^verbatim>\<open>["pubkey"]\<close>, an event signed by a 64-digit key is rejected by the whitelist rule
  and the reason \<^verbatim>\<open>blocked: pubkey not in whitelist\<close> contains the member \<^verbatim>\<open>pubkey\<close>.
  Likewise, under the sample whitelist, an event whose author field reads \<^verbatim>\<open>whitelist\<close>
  is rejected with a reason that contains that author field.
\<close>

theorem whitelist_reason_contains_counterexample:
  "violates_whitelist (sample_cfg\<lparr>WhitelistPubkeys := [''pubkey'']\<rparr>)
      (sample_event\<lparr>EvPubKey := sample_key_b\<rparr>)
   \<and> RejectEvent (sample_cfg\<lparr>WhitelistPubkeys := [''pubkey'']\<rparr>)
        (sample_event\<lparr>EvPubKey := sample_key_b\<rparr>)
       = (True, ''blocked: pubkey not in whitelist'')
   \<and> ''pubkey'' \<in> set (WhitelistPubkeys (sample_cfg\<lparr>WhitelistPubkeys := [''pubkey'']\<rparr>))
   \<and> sublist ''pubkey''
        (snd (RejectEvent (sample_cfg\<lparr>WhitelistPubkeys := [''pubkey'']\<rparr>)
                (sample_event\<lparr>EvPubKey := sample_key_b\<rparr>)))
   \<and> violates_whitelist sample_cfg (sample_event\<lparr>EvPubKey := ''whitelist''\<rparr>)
   \<and> RejectEvent sample_cfg (sample_event\<lparr>EvPubKey := ''whitelist''\<rparr>)
       = (True, ''blocked: pubkey not in whitelist'')
   \<and> sublist (EvPubKey (sample_event\<lparr>EvPubKey := ''whitelist''\<rparr>))
        (snd (RejectEvent sample_cfg (sample_event\<lparr>EvPubKey := ''whitelist''\<rparr>)))"
proof -
  let ?cfg = "sample_cfg\<lparr>WhitelistPubkeys := [''pubkey'']\<rparr>"
  let ?ev = "sample_event\<lparr>EvPubKey := sample_key_b\<rparr>"
  let ?ev' = "sample_event\<lparr>EvPubKey := ''whitelist''\<rparr>"
  have v: "violates_whitelist ?cfg ?ev"
    by (simp add: violates_whitelist_def sample_cfg_def sample_event_def sample_key_b_def)
  have r: "RejectEvent ?cfg ?ev = (True, ''blocked: pubkey not in whitelist'')"
    by (simp add: RejectEvent_def sample_cfg_def sample_event_def sample_key_b_def)
  have v': "violates_whitelist sample_cfg ?ev'"
    by (simp add: violates_whitelist_def sample_cfg_def sample_event_def)
  have r': "RejectEvent sample_cfg ?ev' = (True, ''blocked: pubkey not in whitelist'')"
    by (simp add: RejectEvent_def sample_cfg_def sample_event_def)
  have "''blocked: pubkey not in whitelist'' = ''blocked: pubkey not in '' @ ''whitelist'' @ []"
    by simp
  then have s1: "sublist ''whitelist'' ''blocked: pubkey not in whitelist''"
    unfolding sublist_def by blast
  have "''blocked: pubkey not in whitelist'' = ''blocked: '' @ ''pubkey'' @ '' not in whitelist''"
    by simp
  then have s2: "sublist ''pubkey'' ''blocked: pubkey not in whitelist''"
    unfolding sublist_def by blast
  from v r v' r' s1 s2 show ?thesis
    by simp
qed

text \<open>
  Claim C3, amended. For every configuration with a non-empty whitelist and every event
  rejected by the whitelist rule, the reason is the constant
  \<^verbatim>\<open>blocked: pubkey not in whitelist\<close>: two such rejections, of any two events under any
  two configurations, return the same verdict. The event's pubkey, or a member of the
  whitelist, occurs in the reason exactly when it is a piece of that constant text, and
  so never when it is longer than the constant's 32 characters.
\<close>

theorem whitelist_reason_is_fixed:
  assumes "\<not> violates_content_length cfg ev" and "\<not> violates_tag_count cfg ev"
    and "\<not> violates_allowed_kinds cfg ev" and "violates_whitelist cfg ev"
    and "\<not> violates_content_length cfg' ev'" and "\<not> violates_tag_count cfg' ev'"
    and "\<not> violates_allowed_kinds cfg' ev'" and "violates_whitelist cfg' ev'"
  shows "RejectEvent cfg ev = (True, ''blocked: pubkey not in whitelist'')
    \<and> RejectEvent cfg' ev' = RejectEvent cfg ev
    \<and> (sublist (EvPubKey ev) (snd (RejectEvent cfg ev))
          \<longleftrightarrow> sublist (EvPubKey ev) ''blocked: pubkey not in whitelist'')
    \<and> (\<forall>m \<in> set (WhitelistPubkeys cfg).
          sublist m (snd (RejectEvent cfg ev))
            \<longleftrightarrow> sublist m ''blocked: pubkey not in whitelist'')
    \<and> (32 < length (EvPubKey ev) \<longrightarrow> \<not> sublist (EvPubKey ev) (snd (RejectEvent cfg ev)))
    \<and> (\<forall>m \<in> set (WhitelistPubkeys cfg).
          32 < length m \<longrightarrow> \<not> sublist m (snd (RejectEvent cfg ev)))"
proof -
  have r: "RejectEvent cfg ev = (True, ''blocked: pubkey not in whitelist'')"
    using assms(1-4) by (simp add: RejectEvent_by_rules)
  have r': "RejectEvent cfg' ev' = (True, ''blocked: pubkey not in whitelist'')"
    using assms(5-8) by (simp add: RejectEvent_by_rules)
  have long: "\<not> sublist s ''blocked: pubkey not in whitelist''" if "32 < length s" for s :: string
  proof
    assume "sublist s ''blocked: pubkey not in whitelist''"
    then have "length s \<le> length ''blocked: pubkey not in whitelist''"
      by (rule sublist_length_le)
    with that show False by simp
  qed
  from r r' long show ?thesis
    by simp
qed

text \<open>
  Two whitelist rejections that share neither the whitelist nor the author, with keys of
  64 hexadecimal digits as the protocol has them.
\<close>

theorem whitelist_reason_is_fixed_witness:
  "violates_whitelist sample_cfg (sample_event\<lparr>EvPubKey := ''xyz''\<rparr>)
   \<and> violates_whitelist (sample_cfg\<lparr>WhitelistPubkeys := [sample_key_a]\<rparr>)
        (sample_event\<lparr>EvPubKey := sample_key_b\<rparr>)
   \<and> RejectEvent (sample_cfg\<lparr>WhitelistPubkeys := [sample_key_a]\<rparr>)
        (sample_event\<lparr>EvPubKey := sample_key_b\<rparr>)
       = (True, ''blocked: pubkey not in whitelist'')
   \<and> RejectEvent sample_cfg (sample_event\<lparr>EvPubKey := ''xyz''\<rparr>)
       = RejectEvent (sample_cfg\<lparr>WhitelistPubkeys := [sample_key_a]\<rparr>)
           (sample_event\<lparr>EvPubKey := sample_key_b\<rparr>)
   \<and> \<not> sublist sample_key_b
        (snd (RejectEvent (sample_cfg\<lparr>WhitelistPubkeys := [sample_key_a]\<rparr>)
                (sample_event\<lparr>EvPubKey := sample_key_b\<rparr>)))
   \<and> \<not> sublist sample_key_a
        (snd (RejectEvent (sample_cfg\<lparr>WhitelistPubkeys := [sample_key_a]\<rparr>)
                (sample_event\<lparr>EvPubKey := sample_key_b\<rparr>)))"
proof -
  let ?cfg = "sample_cfg\<lparr>WhitelistPubkeys := [sample_key_a]\<rparr>"
  let ?ev = "sample_event\<lparr>EvPubKey := sample_key_b\<rparr>"
  let ?ev' = "sample_event\<lparr>EvPubKey := ''xyz''\<rparr>"
  have a: "\<not> violates_content_length ?cfg ?ev" "\<not> violates_tag_count ?cfg ?ev"
    "\<not> violates_allowed_kinds ?cfg ?ev" "violates_whitelist ?cfg ?ev"
    by (simp_all add: violates_content_length_def violates_tag_count_def
          violates_allowed_kinds_def violates_whitelist_def sample_cfg_def sample_event_def
          sample_key_a_def sample_key_b_def)
  have b: "\<not> violates_content_length sample_cfg ?ev'" "\<not> violates_tag_count sample_cfg ?ev'"
    "\<not> violates_allowed_kinds sample_cfg ?ev'" "violates_whitelist sample_cfg ?ev'"
    by (simp_all add: violates_content_length_def violates_tag_count_def
          violates_allowed_kinds_def violates_whitelist_def sample_cfg_def sample_event_def)
  have len: "32 < length (EvPubKey ?ev)" "32 < length sample_key_a"
    "sample_key_a \<in> set (WhitelistPubkeys ?cfg)"
    by (simp_all add: sample_key_a_def sample_key_b_def)
  note fixed = whitelist_reason_is_fixed [OF a b]
  from fixed have r: "RejectEvent ?cfg ?ev = (True, ''blocked: pubkey not in whitelist'')"
    by blast
  from fixed have e: "RejectEvent sample_cfg ?ev' = RejectEvent ?cfg ?ev"
    by blast
  have k: "EvPubKey ?ev = sample_key_b"
    by simp
  from fixed len(1) have n1: "\<not> sublist sample_key_b (snd (RejectEvent ?cfg ?ev))"
    unfolding k by blast
  from fixed len(2,3) have n2: "\<not> sublist sample_key_a (snd (RejectEvent ?cfg ?ev))"
    by blast
  from b(4) a(4) r e n1 n2 show ?thesis
    by blast
qed

subsection \<open>Limits that are zero or negative\<close>

text \<open>
  Claim C4. With \<^verbatim>\<open>MaxContentLength\<close> equal to 0 no event is rejected for its content
  length: the reason is never the content-length text, and the verdict does not change
  when the content is replaced by any other. With \<^verbatim>\<open>MaxEventTags\<close> equal to 0 no event
  is rejected for its number of tags, in the same two senses.
\<close>

theorem zero_limit_disables_check:
  "(MaxContentLength cfg = 0 \<longrightarrow>
      \<not> violates_content_length cfg ev
      \<and> \<not> prefix ''blocked: content length'' (snd (RejectEvent cfg ev))
      \<and> RejectEvent cfg (ev\<lparr>Content := c\<rparr>) = RejectEvent cfg ev)
   \<and> (MaxEventTags cfg = 0 \<longrightarrow>
      \<not> violates_tag_count cfg ev
      \<and> \<not> prefix ''blocked: number of tags'' (snd (RejectEvent cfg ev))
      \<and> RejectEvent cfg (ev\<lparr>Tags := ts\<rparr>) = RejectEvent cfg ev)"
proof (intro conjI impI)
  assume z: "MaxContentLength cfg = 0"
  then show v: "\<not> violates_content_length cfg ev"
    by (simp add: violates_content_length_def)
  then show "\<not> prefix ''blocked: content length'' (snd (RejectEvent cfg ev))"
    by (simp add: content_length_reason_iff)
  from z show "RejectEvent cfg (ev\<lparr>Content := c\<rparr>) = RejectEvent cfg ev"
    by (simp add: RejectEvent_def)
next
  assume z: "MaxEventTags cfg = 0"
  then show v: "\<not> violates_tag_count cfg ev"
    by (simp add: violates_tag_count_def)
  then show "\<not> prefix ''blocked: number of tags'' (snd (RejectEvent cfg ev))"
    by (simp add: tag_count_reason_iff)
  from z show "RejectEvent cfg (ev\<lparr>Tags := ts\<rparr>) = RejectEvent cfg ev"
    by (simp add: RejectEvent_def)
qed

text \<open>
  Both limits 0, a content of 1000 bytes and 50 tags: the sample event is still accepted.
\<close>

theorem zero_limit_disables_check_witness:
  "MaxContentLength (sample_cfg\<lparr>MaxContentLength := 0, MaxEventTags := 0\<rparr>) = 0
   \<and> MaxEventTags (sample_cfg\<lparr>MaxContentLength := 0, MaxEventTags := 0\<rparr>) = 0
   \<and> RejectEvent (sample_cfg\<lparr>MaxContentLength := 0, MaxEventTags := 0\<rparr>)
        (sample_event\<lparr>Tags := replicate 50 [''t''], Content := replicate 1000 CHR ''x''\<rparr>)
       = (False, '''')"
proof -
  let ?cfg = "sample_cfg\<lparr>MaxContentLength := 0, MaxEventTags := 0\<rparr>"
  have z: "MaxContentLength ?cfg = 0" "MaxEventTags ?cfg = 0"
    by simp_all
  have "RejectEvent ?cfg (sample_event\<lparr>Tags := replicate 50 [''t''],
            Content := replicate 1000 CHR ''x''\<rparr>)
      = RejectEvent ?cfg (sample_event\<lparr>Tags := replicate 50 [''t'']\<rparr>)"
    using zero_limit_disables_check
            [of ?cfg "sample_event\<lparr>Tags := replicate 50 [''t'']\<rparr>" "replicate 1000 CHR ''x''"] z
    by simp
  also have "\<dots> = RejectEvent ?cfg sample_event"
    using zero_limit_disables_check [of ?cfg sample_event _ "replicate 50 [''t'']"] z
    by simp
  also have "\<dots> = (False, '''')"
    by (simp add: RejectEvent_def sample_cfg_def sample_event_def)
  finally show ?thesis
    using z by simp
qed

text \<open>
  Claim C10. A negative \<^verbatim>\<open>MaxContentLength\<close> never rejects an event for its content
  length, and the policy then returns what it returns with that limit set to 0; likewise
  for a negative \<^verbatim>\<open>MaxEventTags\<close>. Both guards test the limit for being greater than 0,
  so the policy itself does not enforce that the limits are non-negative.
\<close>

theorem negative_limit_is_unlimited:
  "(MaxContentLength cfg < 0 \<longrightarrow>
      \<not> violates_content_length cfg ev
      \<and> \<not> prefix ''blocked: content length'' (snd (RejectEvent cfg ev))
      \<and> RejectEvent cfg ev = RejectEvent (cfg\<lparr>MaxContentLength := 0\<rparr>) ev)
   \<and> (MaxEventTags cfg < 0 \<longrightarrow>
      \<not> violates_tag_count cfg ev
      \<and> \<not> prefix ''blocked: number of tags'' (snd (RejectEvent cfg ev))
      \<and> RejectEvent cfg ev = RejectEvent (cfg\<lparr>MaxEventTags := 0\<rparr>) ev)"
proof (intro conjI impI)
  assume n: "MaxContentLength cfg < 0"
  then show v: "\<not> violates_content_length cfg ev"
    by (simp add: violates_content_length_def)
  then show "\<not> prefix ''blocked: content length'' (snd (RejectEvent cfg ev))"
    by (simp add: content_length_reason_iff)
  from n show "RejectEvent cfg ev = RejectEvent (cfg\<lparr>MaxContentLength := 0\<rparr>) ev"
    by (simp add: RejectEvent_def)
next
  assume n: "MaxEventTags cfg < 0"
  then show v: "\<not> violates_tag_count cfg ev"
    by (simp add: violates_tag_count_def)
  then show "\<not> prefix ''blocked: number of tags'' (snd (RejectEvent cfg ev))"
    by (simp add: tag_count_reason_iff)
  from n show "RejectEvent cfg ev = RejectEvent (cfg\<lparr>MaxEventTags := 0\<rparr>) ev"
    by (simp add: RejectEvent_def)
qed

text \<open>The limits -1 and -7, a content of 1000 bytes and 50 tags.\<close>

theorem negative_limit_is_unlimited_witness:
  "MaxContentLength (sample_cfg\<lparr>MaxContentLength := - 1, MaxEventTags := - 7\<rparr>) < 0
   \<and> MaxEventTags (sample_cfg\<lparr>MaxContentLength := - 1, MaxEventTags := - 7\<rparr>) < 0
   \<and> RejectEvent (sample_cfg\<lparr>MaxContentLength := - 1, MaxEventTags := - 7\<rparr>)
        (sample_event\<lparr>Tags := replicate 50 [''t''], Content := replicate 1000 CHR ''x''\<rparr>)
       = (False, '''')"
proof -
  let ?cfg = "sample_cfg\<lparr>MaxContentLength := - 1, MaxEventTags := - 7\<rparr>"
  let ?ev = "sample_event\<lparr>Tags := replicate 50 [''t''], Content := replicate 1000 CHR ''x''\<rparr>"
  have n: "MaxContentLength ?cfg < 0" "MaxEventTags ?cfg < 0"
    by simp_all
  have "RejectEvent ?cfg ?ev = RejectEvent (?cfg\<lparr>MaxContentLength := 0\<rparr>) ?ev"
    using negative_limit_is_unlimited [of ?cfg ?ev] n by blast
  also have "\<dots> = RejectEvent (?cfg\<lparr>MaxContentLength := 0, MaxEventTags := 0\<rparr>) ?ev"
    using negative_limit_is_unlimited [of "?cfg\<lparr>MaxContentLength := 0\<rparr>" ?ev] by simp
  also have "\<dots> = (False, '''')"
    by (simp add: RejectEvent_def sample_cfg_def sample_event_def)
  finally show ?thesis
    using n by simp
qed

subsection \<open>Totality and the shape of the verdict\<close>

text \<open>
  Claim C5. The policy is a total function: for every configuration and every event,
  also one with no tags, empty content or kind 0, it returns one of five verdicts,
  acceptance with the empty reason or a rejection with one of the four reason texts.
  No step of it can fail: \<open>contains\<close> is a terminating scan and the guards only compare.
  Whenever the verdict does not reject, the reason is the empty string.
\<close>

theorem verdict_defined_and_well_formed:
  "(RejectEvent cfg ev = (False, '''')
    \<or> RejectEvent cfg ev =
        (True, ''blocked: content length exceeds maximum of '' @ fmt_d (MaxContentLength cfg))
    \<or> RejectEvent cfg ev =
        (True, ''blocked: number of tags exceeds maximum of '' @ fmt_d (MaxEventTags cfg))
    \<or> RejectEvent cfg ev =
        (True, ''blocked: event kind '' @ fmt_d (Kind ev)
                 @ '' not allowed, allowed kinds: '' @ fmt_v_ints (AllowedKinds cfg))
    \<or> RejectEvent cfg ev = (True, ''blocked: pubkey not in whitelist''))
   \<and> (\<not> fst (RejectEvent cfg ev) \<longrightarrow> snd (RejectEvent cfg ev) = '''')"
proof -
  consider "violates_content_length cfg ev"
    | "\<not> violates_content_length cfg ev" "violates_tag_count cfg ev"
    | "\<not> violates_content_length cfg ev" "\<not> violates_tag_count cfg ev"
      "violates_allowed_kinds cfg ev"
    | "\<not> violates_content_length cfg ev" "\<not> violates_tag_count cfg ev"
      "\<not> violates_allowed_kinds cfg ev" "violates_whitelist cfg ev"
    | "\<not> violates_content_length cfg ev" "\<not> violates_tag_count cfg ev"
      "\<not> violates_allowed_kinds cfg ev" "\<not> violates_whitelist cfg ev"
    by blast
  then show ?thesis
    by cases (simp_all add: RejectEvent_by_rules)
qed

text \<open>
  An event with no tags, empty content and kind 0, under a configuration without kind
  restriction: accepted, with the empty reason. Under the sample configuration, which
  allows the kinds 1 and 30023 only, the same event is rejected for its kind.
\<close>

theorem verdict_defined_and_well_formed_witness:
  "\<not> fst (RejectEvent (sample_cfg\<lparr>AllowedKinds := []\<rparr>)
            (sample_event\<lparr>Kind := 0, Tags := [], Content := ''''\<rparr>))
   \<and> snd (RejectEvent (sample_cfg\<lparr>AllowedKinds := []\<rparr>)
            (sample_event\<lparr>Kind := 0, Tags := [], Content := ''''\<rparr>)) = ''''
   \<and> RejectEvent sample_cfg (sample_event\<lparr>Kind := 0, Tags := [], Content := ''''\<rparr>)
       = (True, ''blocked: event kind 0 not allowed, allowed kinds: [1 30023]'')"
proof -
  let ?cfg = "sample_cfg\<lparr>AllowedKinds := []\<rparr>"
  let ?ev = "sample_event\<lparr>Kind := 0, Tags := [], Content := ''''\<rparr>"
  have a: "\<not> fst (RejectEvent ?cfg ?ev)"
    by (simp add: RejectEvent_def sample_cfg_def sample_event_def)
  with verdict_defined_and_well_formed [of ?cfg ?ev]
  have b: "snd (RejectEvent ?cfg ?ev) = ''''"
    by blast
  have "fst (RejectEvent sample_cfg ?ev)"
    by (simp add: RejectEvent_def sample_cfg_def sample_event_def)
  with verdict_defined_and_well_formed [of sample_cfg ?ev]
  have "RejectEvent sample_cfg ?ev =
        (True, ''blocked: content length exceeds maximum of ''
                 @ fmt_d (MaxContentLength sample_cfg))
    \<or> RejectEvent sample_cfg ?ev =
        (True, ''blocked: number of tags exceeds maximum of '' @ fmt_d (MaxEventTags sample_cfg))
    \<or> RejectEvent sample_cfg ?ev =
        (True, ''blocked: event kind '' @ fmt_d (Kind ?ev)
                 @ '' not allowed, allowed kinds: '' @ fmt_v_ints (AllowedKinds sample_cfg))
    \<or> RejectEvent sample_cfg ?ev = (True, ''blocked: pubkey not in whitelist'')"
    by auto
  moreover have "RejectEvent sample_cfg ?ev
      = (True, ''blocked: event kind 0 not allowed, allowed kinds: [1 30023]'')"
    by (simp add: RejectEvent_def sample_cfg_def sample_event_def fmt_d_def fmt_v_ints_def
          dec_nat.simps)
  ultimately show ?thesis
    using a b by simp
qed

section \<open>Properties of the request dispatcher\<close>

text \<open>
  A string that \<open>ascii_lower\<close> maps to \<^verbatim>\<open>websocket\<close> has ASCII bytes only, so
  \<open>ToLower\<close> takes its ASCII path on it, whatever the Unicode mapping is.
\<close>

lemma ascii_lower_is_ascii: "is_ascii (ascii_lower c) \<Longrightarrow> is_ascii c"
  by (auto simp: is_ascii_def ascii_lower_def split: if_splits)

lemma list_all_ascii_lower: "list_all is_ascii (map ascii_lower s) \<Longrightarrow> list_all is_ascii s"
  by (induction s) (auto dest: ascii_lower_is_ascii)

lemma ToLower_websocket:
  assumes "map ascii_lower s = ''websocket''"
  shows "ToLower unicode_lower s = ''websocket''"
proof -
  have "list_all is_ascii ''websocket''"
    by (simp add: is_ascii_def)
  with assms have "list_all is_ascii (map ascii_lower s)"
    by simp
  then have "list_all is_ascii s"
    by (rule list_all_ascii_lower)
  with assms show ?thesis
    by (simp add: ToLower_def)
qed

lemma ToLower_empty: "ToLower unicode_lower '''' = ''''"
  by (simp add: ToLower_def)

lemma ToLower_samples:
  "map ascii_lower ''WebSocket'' = ''websocket''"
  "ToLower unicode_lower ''web socket'' = ''web socket''"
  by (simp_all add: ToLower_def is_ascii_def ascii_lower_def char_of_eq_iff)

lemma Header_Get_samples:
  "Header_Get (Header upgrade_request) ''Upgrade'' = ''WebSocket''"
  "Header_Get (Header upgrade_request) ''Accept'' = ''application/json''"
  "Header_Get (Header json_request) ''Upgrade'' = ''''"
  "Header_Get (Header json_request) ''Accept'' = ''application/json''"
  "Header_Get (Header plain_request) ''Upgrade'' = ''''"
  "Header_Get (Header plain_request) ''Accept'' = ''''"
  "Header_Get (Header odd_upgrade_request) ''Upgrade'' = ''web socket''"
  "Header_Get (Header odd_upgrade_request) ''Accept'' = ''''"
  "Header_Get (Header odd_upgrade_json_request) ''Upgrade'' = ''web socket''"
  "Header_Get (Header odd_upgrade_json_request) ''Accept'' = ''application/json''"
  by (simp_all add: Header_Get_def upgrade_request_def json_request_def plain_request_def
        odd_upgrade_request_def odd_upgrade_json_request_def)


subsection \<open>Upgrade requests\<close>

text \<open>
  Claim C6. A request whose \<^verbatim>\<open>Upgrade\<close> header equals \<^verbatim>\<open>websocket\<close> when letter case is
  ignored is handed to the relay engine and the handler does nothing else: the response
  is \<open>StreamingHandoff\<close>, which sets no header and writes no body. This holds whatever
  the \<^verbatim>\<open>Accept\<close> header is, and so also after setting it to \<^verbatim>\<open>application/json\<close>.
\<close>

theorem websocket_upgrade_handed_off:
  assumes "map ascii_lower (Header_Get (Header r) ''Upgrade'') = ''websocket''"
  shows "handleRoot unicode_lower cfg r = StreamingHandoff
    \<and> handleRoot unicode_lower cfg
          (r\<lparr>Header := (Header r)(''Accept'' \<mapsto> [''application/json''])\<rparr>)
        = StreamingHandoff"
proof -
  let ?r' = "r\<lparr>Header := (Header r)(''Accept'' \<mapsto> [''application/json''])\<rparr>"
  have low: "ToLower unicode_lower (Header_Get (Header r) ''Upgrade'') = ''websocket''"
    using assms by (rule ToLower_websocket)
  have "Header_Get (Header ?r') ''Upgrade'' = Header_Get (Header r) ''Upgrade''"
    by (simp add: Header_Get_def)
  with low have "ToLower unicode_lower (Header_Get (Header ?r') ''Upgrade'') = ''websocket''"
    by simp
  with low show ?thesis
    by (simp add: handleRoot_def)
qed

text \<open>The header \<^verbatim>\<open>Upgrade: WebSocket\<close>, together with \<^verbatim>\<open>Accept: application/json\<close>.\<close>

theorem websocket_upgrade_handed_off_witness:
  "map ascii_lower (Header_Get (Header upgrade_request) ''Upgrade'') = ''websocket''
   \<and> Header_Get (Header upgrade_request) ''Accept'' = ''application/json''
   \<and> handleRoot id sample_cfg upgrade_request = StreamingHandoff"
proof -
  have h: "map ascii_lower (Header_Get (Header upgrade_request) ''Upgrade'') = ''websocket''"
    by (simp only: Header_Get_samples ToLower_samples)
  from websocket_upgrade_handed_off [OF h, of id sample_cfg]
  have "handleRoot id sample_cfg upgrade_request = StreamingHandoff"
    by blast
  with h show ?thesis
    by (simp add: Header_Get_samples)
qed




subsection \<open>Routing by the Accept header\<close>

text \<open>
  Claim C9. A request that is not a websocket upgrade is routed by its \<^verbatim>\<open>Accept\<close> header:
  when that header is \<^verbatim>\<open>application/json\<close> the answer is the capability document, sent
  as \<^verbatim>\<open>application/json\<close>; with any other value, and so also when the header is absent,
  the answer is the status page, sent as \<^verbatim>\<open>text/html\<close>.
\<close>

theorem non_upgrade_routed_by_accept:
  assumes "ToLower unicode_lower (Header_Get (Header r) ''Upgrade'') \<noteq> ''websocket''"
  shows "(Header_Get (Header r) ''Accept'' = ''application/json'' \<longrightarrow>
            (\<exists>doc. handleRoot unicode_lower cfg r = CapabilityDocument ''application/json'' doc))
    \<and> (Header_Get (Header r) ''Accept'' \<noteq> ''application/json'' \<longrightarrow>
            (\<exists>args. handleRoot unicode_lower cfg r = StatusPage ''text/html'' args))
    \<and> (Header r ''Accept'' = None \<longrightarrow>
            (\<exists>args. handleRoot unicode_lower cfg r = StatusPage ''text/html'' args))"
proof (intro conjI impI)
  assume "Header_Get (Header r) ''Accept'' = ''application/json''"
  with assms
  show "\<exists>doc. handleRoot unicode_lower cfg r = CapabilityDocument ''application/json'' doc"
    by (simp add: handleRoot_def)
next
  assume "Header_Get (Header r) ''Accept'' \<noteq> ''application/json''"
  with assms
  show "\<exists>args. handleRoot unicode_lower cfg r = StatusPage ''text/html'' args"
    by (simp add: handleRoot_def)
next
  assume "Header r ''Accept'' = None"
  then have "Header_Get (Header r) ''Accept'' = ''''"
    by (simp add: Header_Get_def)
  with assms
  show "\<exists>args. handleRoot unicode_lower cfg r = StatusPage ''text/html'' args"
    by (simp add: handleRoot_def)
qed

text \<open>
  A request with \<^verbatim>\<open>Accept: application/json\<close> and one with no header at all, neither with
  an \<^verbatim>\<open>Upgrade\<close> header.
\<close>

theorem non_upgrade_routed_by_accept_witness:
  "ToLower id (Header_Get (Header json_request) ''Upgrade'') \<noteq> ''websocket''
   \<and> Header_Get (Header json_request) ''Accept'' = ''application/json''
   \<and> (\<exists>doc. handleRoot id sample_cfg json_request = CapabilityDocument ''application/json'' doc)
   \<and> ToLower id (Header_Get (Header plain_request) ''Upgrade'') \<noteq> ''websocket''
   \<and> Header plain_request ''Accept'' = None
   \<and> (\<exists>args. handleRoot id sample_cfg plain_request = StatusPage ''text/html'' args)"
proof -
  have j: "ToLower id (Header_Get (Header json_request) ''Upgrade'') \<noteq> ''websocket''"
    "Header_Get (Header json_request) ''Accept'' = ''application/json''"
    by (simp_all add: Header_Get_samples ToLower_empty)
  have p: "ToLower id (Header_Get (Header plain_request) ''Upgrade'') \<noteq> ''websocket''"
    "Header plain_request ''Accept'' = None"
    by (simp add: Header_Get_samples ToLower_empty) (simp add: plain_request_def)
  from non_upgrade_routed_by_accept [OF j(1), of sample_cfg] j(2)
  have a: "\<exists>doc. handleRoot id sample_cfg json_request = CapabilityDocument ''application/json'' doc"
    by blast
  from non_upgrade_routed_by_accept [OF p(1), of sample_cfg] p(2)
  have b: "\<exists>args. handleRoot id sample_cfg plain_request = StatusPage ''text/html'' args"
    by blast
  from j p a b show ?thesis
    by blast
qed

subsection \<open>The capability document\<close>



end
